theory Spec2Isabelle
  imports Main "HOL-Library.Sublist"
begin

section \<open>JavaScript values used by the launcher\<close>

text \<open>
  An \<^verbatim>\<open>Error\<close> object: its \<^verbatim>\<open>name\<close>, its \<^verbatim>\<open>message\<close>, the \<^verbatim>\<open>stack\<close> text
  (\<open>None\<close> is \<^verbatim>\<open>undefined\<close>) and the \<^verbatim>\<open>exitCode\<close> property that
  \<^verbatim>\<open>launcher.js\<close> attaches to some of its errors.
\<close>

record js_error =
  name :: string
  message :: string
  stack :: "string option"
  exitCode :: "int option"

text \<open>Truthiness of a string, and of a value that is a string, \<^verbatim>\<open>undefined\<close> or \<^verbatim>\<open>null\<close>.\<close>

definition truthy :: "string \<Rightarrow> bool" where
  "truthy s \<longleftrightarrow> s \<noteq> []"

fun truthy_opt :: "string option \<Rightarrow> bool" where
  "truthy_opt None = False"
| "truthy_opt (Some s) = truthy s"

text \<open>\<^verbatim>\<open>Error.prototype.toString\<close>, which is what \<^verbatim>\<open>String(err)\<close> calls.\<close>

definition error_toString :: "js_error \<Rightarrow> string" where
  "error_toString e =
     (if name e = [] then message e
      else if message e = [] then name e
      else name e @ '': '' @ message e)"

text \<open>
  \<^verbatim>\<open>new Error(msg)\<close>. The engine captures the stack at construction: the header
  (the error's string form) followed by the frames of the call site, which the host
  supplies.
\<close>

definition new_Error :: "string \<Rightarrow> string \<Rightarrow> js_error" where
  "new_Error frames msg =
     (let e = \<lparr>name = ''Error'', message = msg, stack = None, exitCode = None\<rparr>
      in e\<lparr>stack := Some (error_toString e @ frames)\<rparr>)"

text \<open>Decimal text of an integer, as a template literal prints an integral number.\<close>

definition digit_char :: "nat \<Rightarrow> char" where
  "digit_char d = ''0123456789'' ! d"

fun decimal :: "nat \<Rightarrow> string" where
  "decimal n = (if 10 \<le> n then decimal (n div 10) else []) @ [digit_char (n mod 10)]"

declare decimal.simps [simp del]

definition number_toString :: "int \<Rightarrow> string" where
  "number_toString i = (if 0 \<le> i then decimal (nat i) else CHR ''-'' # decimal (nat (- i)))"

text \<open>\<^verbatim>\<open>Array.prototype.join(sep)\<close> on an array of strings.\<close>

fun join :: "string \<Rightarrow> string list \<Rightarrow> string" where
  "join sep [] = []"
| "join sep [x] = x"
| "join sep (x # y # ys) = x @ sep @ join sep (y # ys)"

text \<open>
  \<^verbatim>\<open>String.prototype.split(c)\<close> for a one-character separator: the pieces between
  the occurrences of \<open>c\<close>, empty pieces included; the empty string gives one empty piece.
\<close>

fun split :: "char \<Rightarrow> string \<Rightarrow> string list" where
  "split c [] = [[]]"
| "split c (x # xs) =
     (if x = c then [] # split c xs
      else (case split c xs of
              [] \<Rightarrow> [[x]]
            | t # ts \<Rightarrow> (x # t) # ts))"

section \<open>The host: environment, PATH lookup and child processes\<close>

type_synonym env = "string \<rightharpoonup> string"

datatype stdio = Inherit | Ignore

text \<open>What \<^verbatim>\<open>spawnSync\<close> returns, restricted to the two fields the launcher reads.\<close>

record spawn_result =
  error :: "js_error option"
  status :: "int option"

text \<open>
  The first event of an asynchronously spawned child that settles the promise of
  \<^verbatim>\<open>launch\<close>: \<^verbatim>\<open>'error'\<close> with the error, or \<^verbatim>\<open>'exit'\<close> with the code and the
  signal (each a value or \<^verbatim>\<open>null\<close>).
\<close>

datatype child_event =
    OnError js_error
  | OnExit "int option" "string option"

text \<open>
  The host is a parameter. \<open>which_sync\<close> is \<^verbatim>\<open>which.sync\<close>: it returns a path or
  throws. \<open>spawnSync\<close> and \<open>spawn\<close> run a command in a world \<open>'w\<close> and give the
  outcome and the world afterwards. \<open>stack_frames\<close> is the stack text the engine
  records for an error constructed at a given line of \<^verbatim>\<open>launcher.js\<close>.
\<close>

record 'w host =
  which_sync :: "string \<Rightarrow> js_error + string"
  spawnSync :: "'w \<Rightarrow> string \<Rightarrow> string list \<Rightarrow> stdio \<Rightarrow> spawn_result \<times> 'w"
  spawn :: "'w \<Rightarrow> string \<Rightarrow> string list \<Rightarrow> stdio \<Rightarrow> child_event \<times> 'w"
  stack_frames :: "nat \<Rightarrow> string"

text \<open>Every call the launcher makes to the host is recorded, in order.\<close>

datatype event =
    Which string
  | SpawnSync string "string list" stdio
  | Spawn string "string list" stdio

record 'w state =
  world :: 'w
  trace :: "event list"

definition record_event :: "event \<Rightarrow> 'w state \<Rightarrow> 'w state" where
  "record_event ev s = s\<lparr>trace := trace s @ [ev]\<rparr>"

section \<open>\<^verbatim>\<open>lib/launcher.js\<close>\<close>

subsection \<open>\<^verbatim>\<open>findPython\<close>\<close>

definition candidates :: "string list" where
  "candidates = [''python'', ''python3'', ''py'']"

text \<open>
  The \<^verbatim>\<open>for\<close> loop over the candidates: a throwing probe is caught and ignored, a
  falsy path is skipped, the first truthy path is returned.
\<close>

fun probe_candidates :: "'w host \<Rightarrow> string list \<Rightarrow> 'w state \<Rightarrow> string option \<times> 'w state" where
  "probe_candidates h [] s = (None, s)"
| "probe_candidates h (c # cs) s =
     (let s' = record_event (Which c) s
      in case which_sync h c of
           Inr p \<Rightarrow> if truthy p then (Some p, s') else probe_candidates h cs s'
         | Inl _ \<Rightarrow> probe_candidates h cs s')"

definition findPython :: "'w host \<Rightarrow> env \<Rightarrow> 'w state \<Rightarrow> string option \<times> 'w state" where
  "findPython h env s =
     (let explicit = env ''NOTEBOOK_MCP_PYTHON''
      in if truthy_opt explicit then (explicit, s)
         else probe_candidates h candidates s)"

subsection \<open>\<^verbatim>\<open>runChecked\<close> and \<^verbatim>\<open>canImportNotebookMcp\<close>\<close>

definition spawnSync_call ::
  "'w host \<Rightarrow> string \<Rightarrow> string list \<Rightarrow> stdio \<Rightarrow> 'w state \<Rightarrow> spawn_result \<times> 'w state" where
  "spawnSync_call h cmd args io s =
     (let (res, w') = spawnSync h (world s) cmd args io
      in (res, record_event (SpawnSync cmd args io) (s\<lparr>world := w'\<rparr>)))"

definition runChecked ::
  "'w host \<Rightarrow> string \<Rightarrow> string list \<Rightarrow> 'w state \<Rightarrow> (js_error + unit) \<times> 'w state" where
  "runChecked h cmd args s =
     (let (res, s') = spawnSync_call h cmd args Inherit s
      in case error res of
           Some e \<Rightarrow> (Inl e, s')
         | None \<Rightarrow>
             (case status res of
                Some n \<Rightarrow>
                  if n \<noteq> 0
                  then (Inl ((new_Error (stack_frames h 25)
                                (cmd @ '' '' @ join '' '' args @ '' exited with code ''
                                   @ number_toString n))
                              \<lparr>exitCode := Some n\<rparr>), s')
                  else (Inr (), s')
              | None \<Rightarrow> (Inr (), s')))"

definition canImportNotebookMcp :: "'w host \<Rightarrow> string \<Rightarrow> 'w state \<Rightarrow> bool \<times> 'w state" where
  "canImportNotebookMcp h python s =
     (let (res, s') = spawnSync_call h python [''-c'', ''import notebook_mcp''] Ignore s
      in (status res = Some 0, s'))"

subsection \<open>\<^verbatim>\<open>ensureInstalled\<close>\<close>

text \<open>\<^verbatim>\<open>process.env.X || dflt\<close>: the default replaces an unset and an empty value.\<close>

definition env_or :: "env \<Rightarrow> string \<Rightarrow> string \<Rightarrow> string" where
  "env_or env var dflt =
     (case env var of None \<Rightarrow> dflt | Some v \<Rightarrow> if truthy v then v else dflt)"

definition pip_spec :: "env \<Rightarrow> string" where
  "pip_spec env = env_or env ''NOTEBOOK_MCP_PIP_SPEC'' ''notebook-mcp''"

definition extraArgs :: "env \<Rightarrow> string list" where
  "extraArgs env = filter truthy (split CHR '' '' (env_or env ''NOTEBOOK_MCP_PIP_ARGS'' []))"

definition install_args :: "env \<Rightarrow> string list" where
  "install_args env = [''-m'', ''pip'', ''install'', ''-U'', pip_spec env] @ extraArgs env"

definition not_importable_message :: string where
  "not_importable_message =
     ''Installed notebook-mcp but it is still not importable. '' @
     ''Check that your Python environment is the one you expect (NOTEBOOK_MCP_PYTHON).''"

definition ensureInstalled ::
  "'w host \<Rightarrow> env \<Rightarrow> string \<Rightarrow> 'w state \<Rightarrow> (js_error + unit) \<times> 'w state" where
  "ensureInstalled h env python s =
     (let (ok, s1) = canImportNotebookMcp h python s
      in if ok then (Inr (), s1)
         else
           (case runChecked h python (install_args env) s1 of
              (Inl e, s2) \<Rightarrow> (Inl e, s2)
            | (Inr _, s2) \<Rightarrow>
                (let (ok', s3) = canImportNotebookMcp h python s2
                 in if \<not> ok'
                    then (Inl (new_Error (stack_frames h 46) not_importable_message), s3)
                    else (Inr (), s3))))"

subsection \<open>\<^verbatim>\<open>launch\<close>\<close>

text \<open>
  The promise an \<^verbatim>\<open>async\<close> function returns, once settled: a \<^verbatim>\<open>throw\<close> in the
  body rejects it.
\<close>

datatype 'a promise = Resolved 'a | Rejected js_error

definition not_found_message :: string where
  "not_found_message =
     ''Python was not found on PATH. Install Python 3.11+ and ensure `python` is available, '' @
     ''or set NOTEBOOK_MCP_PYTHON to the full path of your python executable.''"

text \<open>\<^verbatim>\<open>code || 0\<close> for a code that is a number or \<^verbatim>\<open>null\<close>.\<close>

definition code_or_0 :: "int option \<Rightarrow> int" where
  "code_or_0 code = (case code of None \<Rightarrow> 0 | Some n \<Rightarrow> if n = 0 then 0 else n)"

text \<open>The \<^verbatim>\<open>'exit'\<close> listener.\<close>

definition on_exit :: "'w host \<Rightarrow> int option \<Rightarrow> string option \<Rightarrow> int promise" where
  "on_exit h code signal =
     (case signal of
        Some sig \<Rightarrow>
          if truthy sig
          then Rejected ((new_Error (stack_frames h 74)
                            (''notebook-mcp exited due to signal '' @ sig))
                          \<lparr>exitCode := Some 1\<rparr>)
          else Resolved (code_or_0 code)
      | None \<Rightarrow> Resolved (code_or_0 code))"

text \<open>The rest of \<^verbatim>\<open>launch\<close> from the \<^verbatim>\<open>spawn\<close> call on: the Process Supervisor.\<close>

definition supervise ::
  "'w host \<Rightarrow> string \<Rightarrow> string list \<Rightarrow> 'w state \<Rightarrow> int promise \<times> 'w state" where
  "supervise h python argv s =
     (let args = [''-m'', ''notebook_mcp.server''] @ argv;
          (ev, w') = spawn h (world s) python args Inherit;
          s' = record_event (Spawn python args Inherit) (s\<lparr>world := w'\<rparr>)
      in case ev of
           OnError e \<Rightarrow> (Rejected e, s')
         | OnExit code signal \<Rightarrow> (on_exit h code signal, s'))"

definition launch ::
  "'w host \<Rightarrow> env \<Rightarrow> string list \<Rightarrow> 'w state \<Rightarrow> int promise \<times> 'w state" where
  "launch h env argv s =
     (case findPython h env s of
        (None, s1) \<Rightarrow> (Rejected (new_Error (stack_frames h 56) not_found_message), s1)
      | (Some python, s1) \<Rightarrow>
          if \<not> truthy python
          then (Rejected (new_Error (stack_frames h 56) not_found_message), s1)
          else
            (case ensureInstalled h env python s1 of
               (Inl e, s2) \<Rightarrow> (Rejected e, s2)
             | (Inr _, s2) \<Rightarrow> supervise h python argv s2))"

section \<open>\<^verbatim>\<open>bin/notebook-mcp.js\<close>\<close>

text \<open>How the launcher process ends: what it wrote to its error stream and its exit status.\<close>

record process_end =
  stderr :: string
  exit_status :: int

text \<open>\<^verbatim>\<open>err && err.stack ? err.stack : String(err)\<close> for an error object.\<close>

definition diagnostic :: "js_error \<Rightarrow> string" where
  "diagnostic err =
     (case stack err of
        None \<Rightarrow> error_toString err
      | Some st \<Rightarrow> if truthy st then st else error_toString err)"

text \<open>
  The script attaches a rejection handler only. A rejection writes the diagnostic and a
  line feed and calls \<^verbatim>\<open>process.exit(1)\<close>. On fulfilment no handler runs: the value is
  dropped, \<^verbatim>\<open>process.exitCode\<close> was never assigned, and the process ends with Node's
  default status 0 once the event loop is empty.
\<close>

definition notebook_mcp ::
  "'w host \<Rightarrow> env \<Rightarrow> string list \<Rightarrow> 'w state \<Rightarrow> process_end \<times> 'w state" where
  "notebook_mcp h env process_argv s =
     (case launch h env (drop 2 process_argv) s of
        (Rejected err, s') \<Rightarrow>
          (\<lparr>stderr = diagnostic err @ [CHR 0x0A], exit_status = 1\<rparr>, s')
      | (Resolved code, s') \<Rightarrow>
          (\<lparr>stderr = [], exit_status = 0\<rparr>, s'))"

section \<open>The spec's wording of token splitting\<close>

text \<open>
  The tokens of a string: the maximal runs of characters that are not separators, in
  order, empty tokens discarded. \<open>cur\<close> is the token being read.
\<close>

fun tokens :: "(char \<Rightarrow> bool) \<Rightarrow> string \<Rightarrow> string \<Rightarrow> string list" where
  "tokens sep cur [] = (if cur = [] then [] else [cur])"
| "tokens sep cur (x # xs) =
     (if sep x then (if cur = [] then [] else [cur]) @ tokens sep [] xs
      else tokens sep (cur @ [x]) xs)"

text \<open>White space: space, tab, line feed, vertical tab, form feed, carriage return.\<close>

definition is_whitespace :: "char \<Rightarrow> bool" where
  "is_whitespace c \<longleftrightarrow> c \<in> {CHR '' '', CHR 0x09, CHR 0x0A, CHR 0x0B, CHR 0x0C, CHR 0x0D}"

definition whitespace_split :: "string \<Rightarrow> string list" where
  "whitespace_split v = tokens is_whitespace [] v"

definition space_split :: "string \<Rightarrow> string list" where
  "space_split v = tokens (\<lambda>c. c = CHR '' '') [] v"

section \<open>Which candidates resolve\<close>

definition resolves :: "'w host \<Rightarrow> string \<Rightarrow> bool" where
  "resolves h c = (case which_sync h c of Inr p \<Rightarrow> truthy p | Inl _ \<Rightarrow> False)"

definition resolved_path :: "'w host \<Rightarrow> string \<Rightarrow> string" where
  "resolved_path h c = (case which_sync h c of Inr p \<Rightarrow> p | Inl _ \<Rightarrow> [])"

definition probe_args :: "string list" where
  "probe_args = [''-c'', ''import notebook_mcp'']"

section \<open>Concrete hosts\<close>

text \<open>
  A host whose world counts the \<^verbatim>\<open>spawnSync\<close> calls made so far: the \<open>n\<close>-th call
  gets the \<open>n\<close>-th result of a script, and the backend ends with a given event.
\<close>

definition not_found_error :: "string \<Rightarrow> js_error" where
  "not_found_error c =
     \<lparr>name = ''Error'', message = ''not found: '' @ c, stack = None, exitCode = None\<rparr>"

definition exited :: "int \<Rightarrow> spawn_result" where
  "exited n = \<lparr>error = None, status = Some n\<rparr>"

definition killed :: spawn_result where
  "killed = \<lparr>error = None, status = None\<rparr>"

definition scripted_host ::
  "(string \<Rightarrow> js_error + string) \<Rightarrow> spawn_result list \<Rightarrow> child_event \<Rightarrow> nat host" where
  "scripted_host wh script ev =
     \<lparr>which_sync = wh,
      spawnSync = (\<lambda>n cmd args io. (if n < length script then script ! n else killed, Suc n)),
      spawn = (\<lambda>n cmd args io. (ev, n)),
      stack_frames = (\<lambda>line. [CHR 0x0A] @ ''    at launcher.js'')\<rparr>"

definition which_none :: "string \<Rightarrow> js_error + string" where
  "which_none c = Inl (not_found_error c)"

definition which_python3 :: "string \<Rightarrow> js_error + string" where
  "which_python3 c =
     (if c = ''python3'' then Inr ''/usr/bin/python3'' else Inl (not_found_error c))"

definition which_all :: "string \<Rightarrow> js_error + string" where
  "which_all c = Inr (''/usr/bin/'' @ c)"

definition s0 :: "nat state" where
  "s0 = \<lparr>world = 0, trace = []\<rparr>"

section \<open>Properties of the launcher\<close>

subsection \<open>Interpreter discovery\<close>

lemma probe_candidates_find:
  "probe_candidates h cs s =
     (case find (resolves h) cs of
        None \<Rightarrow> (None, s\<lparr>trace := trace s @ map Which cs\<rparr>)
      | Some c \<Rightarrow>
          (Some (resolved_path h c),
           s\<lparr>trace := trace s @ map Which (takeWhile (\<lambda>c. \<not> resolves h c) cs @ [c])\<rparr>))"
proof (induction cs arbitrary: s)
  case Nil
  show ?case by simp
next
  case (Cons c cs)
  show ?case
  proof (cases "which_sync h c")
    case (Inl e)
    then have nr: "\<not> resolves h c" by (simp add: resolves_def)
    from Inl have "probe_candidates h (c # cs) s = probe_candidates h cs (record_event (Which c) s)"
      by simp
    also note Cons.IH
    finally show ?thesis using nr
      by (simp add: record_event_def split: option.splits)
  next
    case (Inr p)
    show ?thesis
    proof (cases "truthy p")
      case True
      with Inr have r: "resolves h c" "resolved_path h c = p"
        by (simp_all add: resolves_def resolved_path_def)
      from Inr True show ?thesis using r by (simp add: record_event_def)
    next
      case False
      with Inr have nr: "\<not> resolves h c" by (simp add: resolves_def)
      from Inr False
      have "probe_candidates h (c # cs) s = probe_candidates h cs (record_event (Which c) s)"
        by simp
      also note Cons.IH
      finally show ?thesis using nr
        by (simp add: record_event_def split: option.splits)
    qed
  qed
qed

lemma resolves_path_truthy: "resolves h c \<Longrightarrow> truthy (resolved_path h c)"
  by (auto simp: resolves_def resolved_path_def split: sum.splits)

lemma findPython_truthy:
  assumes "findPython h env s = (Some p, s')"
  shows "truthy p"
proof (cases "truthy_opt (env ''NOTEBOOK_MCP_PYTHON'')")
  case True
  with assms show ?thesis by (auto simp: findPython_def)
next
  case False
  with assms have "probe_candidates h candidates s = (Some p, s')"
    by (simp add: findPython_def)
  then show ?thesis
    by (auto simp: probe_candidates_find resolves_path_truthy split: option.splits dest: find_Some_iff[THEN iffD1])
qed

subsection \<open>Host calls\<close>

lemma spawnSync_call_eq:
  "spawnSync h (world s) cmd args io = (r, w) \<Longrightarrow>
   spawnSync_call h cmd args io s = (r, \<lparr>world = w, trace = trace s @ [SpawnSync cmd args io]\<rparr>)"
  by (cases s) (simp add: spawnSync_call_def record_event_def)

lemma canImportNotebookMcp_eq:
  "spawnSync h (world s) python probe_args Ignore = (r, w) \<Longrightarrow>
   canImportNotebookMcp h python s =
     (status r = Some 0, \<lparr>world = w, trace = trace s @ [SpawnSync python probe_args Ignore]\<rparr>)"
  by (simp add: canImportNotebookMcp_def probe_args_def spawnSync_call_eq[unfolded probe_args_def])

lemma runChecked_eq:
  "spawnSync h (world s) cmd args Inherit = (r, w) \<Longrightarrow>
   runChecked h cmd args s =
     (case error r of
        Some e \<Rightarrow> Inl e
      | None \<Rightarrow>
          (case status r of
             Some n \<Rightarrow>
               if n \<noteq> 0
               then Inl ((new_Error (stack_frames h 25)
                            (cmd @ '' '' @ join '' '' args @ '' exited with code ''
                               @ number_toString n))
                          \<lparr>exitCode := Some n\<rparr>)
               else Inr ()
           | None \<Rightarrow> Inr ()),
      \<lparr>world = w, trace = trace s @ [SpawnSync cmd args Inherit]\<rparr>)"
  by (simp add: runChecked_def spawnSync_call_eq split: option.splits)

lemma diagnostic_new_Error:
  "msg \<noteq> [] \<Longrightarrow> diagnostic (new_Error frames msg) = ''Error: '' @ msg @ frames"
  by (simp add: diagnostic_def new_Error_def error_toString_def truthy_def)

lemma diagnostic_new_Error_exitCode:
  "msg \<noteq> [] \<Longrightarrow>
   diagnostic ((new_Error frames msg)\<lparr>exitCode := c\<rparr>) = ''Error: '' @ msg @ frames"
  by (simp add: diagnostic_def new_Error_def error_toString_def truthy_def)

lemma notebook_mcp_rejected:
  "launch h env (drop 2 process_argv) s = (Rejected e, s') \<Longrightarrow>
   notebook_mcp h env process_argv s =
     (\<lparr>stderr = diagnostic e @ [CHR 0x0A], exit_status = 1\<rparr>, s')"
  by (simp add: notebook_mcp_def)

lemma notebook_mcp_resolved:
  "launch h env (drop 2 process_argv) s = (Resolved n, s') \<Longrightarrow>
   notebook_mcp h env process_argv s = (\<lparr>stderr = [], exit_status = 0\<rparr>, s')"
  by (simp add: notebook_mcp_def)

lemma launch_found:
  assumes "findPython h env s = (Some python, s1)"
  shows "launch h env argv s =
           (case ensureInstalled h env python s1 of
              (Inl e, s2) \<Rightarrow> (Rejected e, s2)
            | (Inr _, s2) \<Rightarrow> supervise h python argv s2)"
  using findPython_truthy[OF assms] by (simp add: launch_def assms)

lemma launch_install_error:
  assumes "findPython h env s = (Some python, s1)"
    and "ensureInstalled h env python s1 = (Inl e, s2)"
  shows "launch h env argv s = (Rejected e, s2)"
  by (simp add: launch_found[OF assms(1)] assms(2))

subsection \<open>The outcomes of \<^verbatim>\<open>ensureInstalled\<close>\<close>

lemma ensureInstalled_importable:
  assumes "spawnSync h (world s) python probe_args Ignore = (r, w)"
    and "status r = Some 0"
  shows "ensureInstalled h env python s =
           (Inr (), \<lparr>world = w, trace = trace s @ [SpawnSync python probe_args Ignore]\<rparr>)"
  by (simp add: ensureInstalled_def canImportNotebookMcp_eq[OF assms(1)] assms(2))

lemma ensureInstalled_install:
  assumes "spawnSync h (world s) python probe_args Ignore = (r1, w1)"
    and "status r1 \<noteq> Some 0"
  shows "ensureInstalled h env python s =
           (case runChecked h python (install_args env)
                   \<lparr>world = w1, trace = trace s @ [SpawnSync python probe_args Ignore]\<rparr> of
              (Inl e, s2) \<Rightarrow> (Inl e, s2)
            | (Inr _, s2) \<Rightarrow>
                (let (ok', s3) = canImportNotebookMcp h python s2
                 in if \<not> ok'
                    then (Inl (new_Error (stack_frames h 46) not_importable_message), s3)
                    else (Inr (), s3)))"
  by (simp add: ensureInstalled_def canImportNotebookMcp_eq[OF assms(1)] assms(2))

lemma ensureInstalled_install_failed:
  assumes "spawnSync h (world s) python probe_args Ignore = (r1, w1)"
    and "status r1 \<noteq> Some 0"
    and "spawnSync h w1 python (install_args env) Inherit = (r2, w2)"
    and "error r2 \<noteq> None \<or> (\<exists>n. status r2 = Some n \<and> n \<noteq> 0)"
  shows "\<exists>e. ensureInstalled h env python s =
           (Inl e, \<lparr>world = w2,
                    trace = trace s @ [SpawnSync python probe_args Ignore,
                                       SpawnSync python (install_args env) Inherit]\<rparr>)"
  using assms(4)
  by (auto simp: ensureInstalled_install[OF assms(1,2)] runChecked_eq assms(3)
      split: option.splits)

lemma ensureInstalled_reprobe:
  assumes "spawnSync h (world s) python probe_args Ignore = (r1, w1)"
    and "status r1 \<noteq> Some 0"
    and "spawnSync h w1 python (install_args env) Inherit = (r2, w2)"
    and "error r2 = None"
    and "status r2 = None \<or> status r2 = Some 0"
    and "spawnSync h w2 python probe_args Ignore = (r3, w3)"
  shows "ensureInstalled h env python s =
           (if status r3 = Some 0 then Inr ()
            else Inl (new_Error (stack_frames h 46) not_importable_message),
            \<lparr>world = w3,
             trace = trace s @ [SpawnSync python probe_args Ignore,
                                SpawnSync python (install_args env) Inherit,
                                SpawnSync python probe_args Ignore]\<rparr>)"
  using assms(4,5)
  by (auto simp: ensureInstalled_install[OF assms(1,2)] runChecked_eq assms(3)
      canImportNotebookMcp_eq assms(6))

lemma not_importable_message_nonempty: "not_importable_message \<noteq> []"
  by (simp add: not_importable_message_def)

lemma not_found_message_nonempty: "not_found_message \<noteq> []"
  by (simp add: not_found_message_def)

subsection \<open>The Process Supervisor\<close>

lemma supervise_eq:
  "spawn h (world s) python ([''-m'', ''notebook_mcp.server''] @ argv) Inherit = (ev, w) \<Longrightarrow>
   supervise h python argv s =
     (case ev of OnError e \<Rightarrow> Rejected e | OnExit code signal \<Rightarrow> on_exit h code signal,
      \<lparr>world = w,
       trace = trace s @ [Spawn python ([''-m'', ''notebook_mcp.server''] @ argv) Inherit]\<rparr>)"
  by (cases s) (simp add: supervise_def record_event_def split: child_event.splits)

lemma on_exit_code: "on_exit h (Some n) None = Resolved n"
  by (simp add: on_exit_def code_or_0_def)

lemma on_exit_signal:
  "sig \<noteq> [] \<Longrightarrow>
   on_exit h code (Some sig) =
     Rejected ((new_Error (stack_frames h 74) (''notebook-mcp exited due to signal '' @ sig))
                \<lparr>exitCode := Some 1\<rparr>)"
  by (simp add: on_exit_def truthy_def)

lemma launch_backend_exit:
  assumes "findPython h env s = (Some python, s1)"
    and "ensureInstalled h env python s1 = (Inr (), s2)"
    and "spawn h (world s2) python ([''-m'', ''notebook_mcp.server''] @ argv) Inherit
           = (OnExit (Some n) None, w)"
  shows "launch h env argv s =
           (Resolved n,
            \<lparr>world = w,
             trace = trace s2 @ [Spawn python ([''-m'', ''notebook_mcp.server''] @ argv) Inherit]\<rparr>)"
  by (simp add: launch_found[OF assms(1)] assms(2) supervise_eq[OF assms(3)] on_exit_code)

lemma notebook_mcp_backend_exit:
  assumes "findPython h env s = (Some python, s1)"
    and "ensureInstalled h env python s1 = (Inr (), s2)"
    and "spawn h (world s2) python ([''-m'', ''notebook_mcp.server''] @ drop 2 process_argv) Inherit
           = (OnExit (Some n) None, w)"
  shows "exit_status (fst (notebook_mcp h env process_argv s)) = 0"
  by (simp add: notebook_mcp_resolved[OF launch_backend_exit[OF assms]])

subsection \<open>Tokens\<close>

lemma split_not_Nil: "split c v \<noteq> []"
  by (induction v) (auto split: list.splits)

lemma tokens_split:
  "tokens (\<lambda>x. x = c) cur v =
     (case split c v of [] \<Rightarrow> [] | t # ts \<Rightarrow> filter truthy ((cur @ t) # ts))"
proof (induction v arbitrary: cur)
  case Nil
  show ?case by (simp add: truthy_def)
next
  case (Cons x xs)
  show ?case
  proof (cases "x = c")
    case True
    then show ?thesis
      by (simp add: Cons.IH[of "[]"] truthy_def split: list.splits)
  next
    case False
    then show ?thesis
      using split_not_Nil[of c xs]
      by (simp add: Cons.IH[of "cur @ [x]"] split: list.splits)
  qed
qed

lemma filter_split_tokens: "filter truthy (split c v) = tokens (\<lambda>x. x = c) [] v"
  using split_not_Nil[of c v] by (simp add: tokens_split split: list.splits)

lemma extraArgs_space_split:
  "extraArgs env = space_split (case env ''NOTEBOOK_MCP_PIP_ARGS'' of None \<Rightarrow> [] | Some v \<Rightarrow> v)"
  by (simp add: extraArgs_def space_split_def filter_split_tokens env_or_def truthy_def
      split: option.splits)

lemma tokens_nonempty: "t \<in> set (tokens sep cur v) \<Longrightarrow> t \<noteq> []"
  by (induction v arbitrary: cur) (auto split: if_splits)

lemma tokens_no_sep:
  "\<forall>x \<in> set cur. \<not> sep x \<Longrightarrow> t \<in> set (tokens sep cur v) \<Longrightarrow> \<forall>x \<in> set t. \<not> sep x"
proof (induction v arbitrary: cur)
  case Nil
  then show ?case by (auto split: if_splits)
next
  case (Cons a v)
  show ?case
  proof (cases "sep a")
    case True
    with Cons.prems(2) have "t = cur \<or> t \<in> set (tokens sep [] v)"
      by (auto split: if_splits)
    then show ?thesis
    proof
      assume "t = cur"
      with Cons.prems(1) show ?thesis by simp
    next
      assume "t \<in> set (tokens sep [] v)"
      with Cons.IH[of "[]"] show ?thesis by simp
    qed
  next
    case False
    with Cons.prems(2) have "t \<in> set (tokens sep (cur @ [a]) v)" by simp
    moreover from False Cons.prems(1) have "\<forall>x \<in> set (cur @ [a]). \<not> sep x" by simp
    ultimately show ?thesis by (rule Cons.IH[rotated])
  qed
qed

lemma tokens_concat: "concat (tokens sep cur v) = cur @ filter (\<lambda>x. \<not> sep x) v"
  by (induction v arbitrary: cur) auto

lemma tokens_cong_on:
  "\<forall>x \<in> set v. sep x = sep' x \<Longrightarrow> tokens sep cur v = tokens sep' cur v"
  by (induction v arbitrary: cur) auto

lemma space_split_whitespace:
  assumes "\<forall>x \<in> set v. is_whitespace x \<longrightarrow> x = CHR '' ''"
  shows "space_split v = whitespace_split v"
proof -
  have "is_whitespace CHR '' ''" by (simp add: is_whitespace_def)
  with assms have "\<forall>x \<in> set v. (x = CHR '' '') = is_whitespace x" by auto
  then show ?thesis
    unfolding space_split_def whitespace_split_def by (rule tokens_cong_on)
qed

lemma pip_spec_eq:
  "pip_spec env =
     (case env ''NOTEBOOK_MCP_PIP_SPEC'' of
        None \<Rightarrow> ''notebook-mcp''
      | Some v \<Rightarrow> if v = [] then ''notebook-mcp'' else v)"
  by (simp add: pip_spec_def env_or_def truthy_def split: option.splits)

lemma ensureInstalled_install_trace:
  assumes "spawnSync h (world s) python probe_args Ignore = (r1, w1)"
    and "status r1 \<noteq> Some 0"
  shows "\<exists>res w rest. ensureInstalled h env python s =
           (res, \<lparr>world = w,
                  trace = trace s @ [SpawnSync python probe_args Ignore,
                                     SpawnSync python (install_args env) Inherit] @ rest\<rparr>)"
proof -
  obtain r2 w2 where i: "spawnSync h w1 python (install_args env) Inherit = (r2, w2)"
    by (cases "spawnSync h w1 python (install_args env) Inherit")
  obtain r3 w3 where p: "spawnSync h w2 python probe_args Ignore = (r3, w3)"
    by (cases "spawnSync h w2 python probe_args Ignore")
  show ?thesis
  proof (cases "error r2 = None \<and> (status r2 = None \<or> status r2 = Some 0)")
    case True
    then have "error r2 = None" "status r2 = None \<or> status r2 = Some 0" by simp_all
    from ensureInstalled_reprobe[OF assms i this p] show ?thesis by simp
  next
    case False
    then have "error r2 \<noteq> None \<or> (\<exists>n. status r2 = Some n \<and> n \<noteq> 0)" by auto
    from ensureInstalled_install_failed[OF assms i this] show ?thesis by auto
  qed
qed

subsection \<open>The concrete hosts\<close>

lemma findPython_python3:
  "findPython (scripted_host which_python3 script ev) Map.empty s0 =
     (Some ''/usr/bin/python3'', \<lparr>world = 0, trace = [Which ''python'', Which ''python3'']\<rparr>)"
  by (simp add: findPython_def candidates_def scripted_host_def which_python3_def
      truthy_def record_event_def s0_def)

lemma scripted_spawnSync:
  "spawnSync (scripted_host wh script ev) n cmd args io =
     (if n < length script then script ! n else killed, Suc n)"
  by (simp add: scripted_host_def)

lemma scripted_stack_frames:
  "stack_frames (scripted_host wh script ev) line = [CHR 0x0A] @ ''    at launcher.js''"
  by (simp add: scripted_host_def)

lemma install_args_default:
  "install_args Map.empty = [''-m'', ''pip'', ''install'', ''-U'', ''notebook-mcp'']"
  by (simp add: install_args_def pip_spec_def extraArgs_def env_or_def truthy_def)

section \<open>The claims\<close>

text \<open>
  Claim C1 at a concrete run: the interpreter is found, the package is importable, and the
  backend exits normally with code 3. \<^verbatim>\<open>launch\<close> resolves with 3, but the script has
  no fulfilment handler, so the launcher process ends with status 0, not 3.
\<close>

theorem backend_exit_code_dropped:
  "fst (launch (scripted_host which_python3 [exited 0] (OnExit (Some 3) None)) Map.empty
          [''--foo''] s0) = Resolved 3
   \<and> notebook_mcp (scripted_host which_python3 [exited 0] (OnExit (Some 3) None)) Map.empty
         [''node'', ''notebook-mcp'', ''--foo''] s0 =
       (\<lparr>stderr = [], exit_status = 0\<rparr>,
        \<lparr>world = 1,
         trace = [Which ''python'', Which ''python3'',
                  SpawnSync ''/usr/bin/python3'' [''-c'', ''import notebook_mcp''] Ignore,
                  Spawn ''/usr/bin/python3'' [''-m'', ''notebook_mcp.server'', ''--foo'']
                    Inherit]\<rparr>)"
proof -
  let ?h = "scripted_host which_python3 [exited 0] (OnExit (Some 3) None)"
  have f: "findPython ?h Map.empty s0 =
             (Some ''/usr/bin/python3'', \<lparr>world = 0, trace = [Which ''python'', Which ''python3'']\<rparr>)"
    by (simp add: findPython_def candidates_def scripted_host_def which_python3_def
        truthy_def record_event_def s0_def)
  have p: "spawnSync ?h (world \<lparr>world = 0, trace = [Which ''python'', Which ''python3'']\<rparr>)
             ''/usr/bin/python3'' probe_args Ignore = (exited 0, 1)"
    by (simp add: scripted_host_def)
  have e: "ensureInstalled ?h Map.empty ''/usr/bin/python3''
             \<lparr>world = 0, trace = [Which ''python'', Which ''python3'']\<rparr> =
           (Inr (), \<lparr>world = 1, trace = [Which ''python'', Which ''python3'',
               SpawnSync ''/usr/bin/python3'' probe_args Ignore]\<rparr>)"
    using ensureInstalled_importable[OF p, of Map.empty] by (simp add: exited_def)
  have b: "spawn ?h (world \<lparr>world = 1, trace = [Which ''python'', Which ''python3'',
               SpawnSync ''/usr/bin/python3'' probe_args Ignore]\<rparr>) ''/usr/bin/python3''
             ([''-m'', ''notebook_mcp.server''] @ [''--foo'']) Inherit = (OnExit (Some 3) None, 1)"
    by (simp add: scripted_host_def)
  have l: "launch ?h Map.empty [''--foo''] s0 =
             (Resolved 3, \<lparr>world = 1, trace = [Which ''python'', Which ''python3'',
               SpawnSync ''/usr/bin/python3'' probe_args Ignore,
               Spawn ''/usr/bin/python3'' [''-m'', ''notebook_mcp.server'', ''--foo''] Inherit]\<rparr>)"
    using launch_backend_exit[OF f e b] by simp
  have d: "drop 2 [''node'', ''notebook-mcp'', ''--foo''] = [''--foo'']" by simp
  from l have "notebook_mcp ?h Map.empty [''node'', ''notebook-mcp'', ''--foo''] s0 =
       (\<lparr>stderr = [], exit_status = 0\<rparr>,
        \<lparr>world = 1, trace = [Which ''python'', Which ''python3'',
               SpawnSync ''/usr/bin/python3'' probe_args Ignore,
               Spawn ''/usr/bin/python3'' [''-m'', ''notebook_mcp.server'', ''--foo''] Inherit]\<rparr>)"
    by (simp only: notebook_mcp_def d prod.case promise.case)
  with l show ?thesis by (simp add: probe_args_def)
qed

text \<open>
  Claim C2, as stated, fails when the override is set to the empty string: the empty
  string is falsy, so \<^verbatim>\<open>findPython\<close> goes on to probe PATH and returns what it finds.
\<close>

theorem findPython_empty_override_counterexample:
  "[''NOTEBOOK_MCP_PYTHON'' \<mapsto> ''''] ''NOTEBOOK_MCP_PYTHON'' = Some ''''
   \<and> findPython (scripted_host which_python3 [] (OnExit (Some 0) None))
         [''NOTEBOOK_MCP_PYTHON'' \<mapsto> ''''] s0 =
       (Some ''/usr/bin/python3'',
        \<lparr>world = 0, trace = [Which ''python'', Which ''python3'']\<rparr>)
   \<and> fst (findPython (scripted_host which_python3 [] (OnExit (Some 0) None))
         [''NOTEBOOK_MCP_PYTHON'' \<mapsto> ''''] s0) \<noteq> Some ''''"
  by (simp add: findPython_def truthy_def candidates_def scripted_host_def which_python3_def
      record_event_def s0_def not_found_error_def)

text \<open>
  Claim C2, amended. If \<^verbatim>\<open>NOTEBOOK_MCP_PYTHON\<close> is set to a non-empty value,
  \<^verbatim>\<open>findPython\<close> returns that value unchanged on every host, and makes no call to the
  host: the state, with its record of probes, is unchanged.
\<close>

theorem findPython_nonempty_override:
  assumes "env ''NOTEBOOK_MCP_PYTHON'' = Some v" and "v \<noteq> []"
  shows "findPython h env s = (Some v, s)"
  using assms by (simp add: findPython_def truthy_def)

theorem findPython_nonempty_override_witness:
  "[''NOTEBOOK_MCP_PYTHON'' \<mapsto> ''/opt/py/bin/python''] ''NOTEBOOK_MCP_PYTHON''
       = Some ''/opt/py/bin/python''
   \<and> ''/opt/py/bin/python'' \<noteq> []
   \<and> findPython (scripted_host which_none [] (OnExit (Some 0) None))
         [''NOTEBOOK_MCP_PYTHON'' \<mapsto> ''/opt/py/bin/python''] s0 =
       (Some ''/opt/py/bin/python'', s0)"
proof -
  let ?env = "[''NOTEBOOK_MCP_PYTHON'' \<mapsto> ''/opt/py/bin/python'']"
  have a: "?env ''NOTEBOOK_MCP_PYTHON'' = Some ''/opt/py/bin/python''" by simp
  have b: "''/opt/py/bin/python'' \<noteq> []" by simp
  from findPython_nonempty_override[of ?env "''/opt/py/bin/python''", OF a b] a b
  show ?thesis by blast
qed

text \<open>
  Claim C3, as stated, fails when the extra arguments are separated by a tab: the code
  splits at the space character only, so \<^verbatim>\<open>-q<TAB>--pre\<close> is passed to pip as one
  argument, where splitting on white space gives two.
\<close>

theorem tab_separated_args_counterexample:
  "trace (snd (ensureInstalled
       (scripted_host which_python3 [exited 1, exited 0, exited 0] (OnExit (Some 0) None))
       [''NOTEBOOK_MCP_PIP_ARGS'' \<mapsto> ''-q'' @ [CHR 0x09] @ ''--pre'']
       ''/usr/bin/python3'' s0)) ! 1 =
     SpawnSync ''/usr/bin/python3''
       [''-m'', ''pip'', ''install'', ''-U'', ''notebook-mcp'', ''-q'' @ [CHR 0x09] @ ''--pre'']
       Inherit
   \<and> whitespace_split (''-q'' @ [CHR 0x09] @ ''--pre'') = [''-q'', ''--pre'']
   \<and> trace (snd (ensureInstalled
       (scripted_host which_python3 [exited 1, exited 0, exited 0] (OnExit (Some 0) None))
       [''NOTEBOOK_MCP_PIP_ARGS'' \<mapsto> ''-q'' @ [CHR 0x09] @ ''--pre'']
       ''/usr/bin/python3'' s0)) ! 1 \<noteq>
     SpawnSync ''/usr/bin/python3''
       ([''-m'', ''pip'', ''install'', ''-U'', ''notebook-mcp'']
          @ whitespace_split (''-q'' @ [CHR 0x09] @ ''--pre''))
       Inherit"
proof -
  let ?h = "scripted_host which_python3 [exited 1, exited 0, exited 0] (OnExit (Some 0) None)"
  let ?env = "[''NOTEBOOK_MCP_PIP_ARGS'' \<mapsto> ''-q'' @ [CHR 0x09] @ ''--pre'']"
  have ia: "install_args ?env =
      [''-m'', ''pip'', ''install'', ''-U'', ''notebook-mcp'', ''-q'' @ [CHR 0x09] @ ''--pre'']"
    by (simp add: install_args_def pip_spec_def extraArgs_def env_or_def truthy_def)
  have ws: "whitespace_split (''-q'' @ [CHR 0x09] @ ''--pre'') = [''-q'', ''--pre'']"
    by (simp add: whitespace_split_def is_whitespace_def)
  have n1: "status (exited 1) \<noteq> Some 0" by (simp add: exited_def)
  have e0: "error (exited 0) = None" "status (exited 0) = None \<or> status (exited 0) = Some 0"
    by (simp_all add: exited_def)
  have p1: "spawnSync ?h (world s0) ''/usr/bin/python3'' probe_args Ignore = (exited 1, 1)"
    by (simp add: scripted_spawnSync s0_def)
  have i: "spawnSync ?h 1 ''/usr/bin/python3'' (install_args ?env) Inherit = (exited 0, 2)"
    by (simp add: scripted_spawnSync)
  have p2: "spawnSync ?h 2 ''/usr/bin/python3'' probe_args Ignore = (exited 0, 3)"
    by (simp add: scripted_spawnSync)
  have t: "trace (snd (ensureInstalled ?h ?env ''/usr/bin/python3'' s0)) ! 1 =
     SpawnSync ''/usr/bin/python3''
       [''-m'', ''pip'', ''install'', ''-U'', ''notebook-mcp'', ''-q'' @ [CHR 0x09] @ ''--pre'']
       Inherit"
    unfolding ensureInstalled_reprobe[OF p1 n1 i e0 p2] ia by (simp add: s0_def)
  show ?thesis unfolding t ws by simp
qed

text \<open>
  Claim C3, amended. When the first probe fails, the next call to the host runs the
  interpreter with \<^verbatim>\<open>-m pip install -U\<close>, the package spec (the value of
  \<^verbatim>\<open>NOTEBOOK_MCP_PIP_SPEC\<close>, or \<^verbatim>\<open>notebook-mcp\<close> when it is unset or empty) and the
  tokens of \<^verbatim>\<open>NOTEBOOK_MCP_PIP_ARGS\<close> split at the space character only: no token is
  empty or holds a space, the tokens in order are the value with its spaces removed, and
  they are the white-space tokens whenever the value holds no white space but spaces.
\<close>

theorem install_command_line:
  assumes "spawnSync h (world s) python probe_args Ignore = (r1, w1)"
    and "status r1 \<noteq> Some 0"
    and "spec = (case env ''NOTEBOOK_MCP_PIP_SPEC'' of
                   None \<Rightarrow> ''notebook-mcp''
                 | Some v \<Rightarrow> if v = [] then ''notebook-mcp'' else v)"
    and "extra = (case env ''NOTEBOOK_MCP_PIP_ARGS'' of None \<Rightarrow> [] | Some v \<Rightarrow> v)"
  shows "take 2 (drop (length (trace s)) (trace (snd (ensureInstalled h env python s)))) =
           [SpawnSync python [''-c'', ''import notebook_mcp''] Ignore,
            SpawnSync python ([''-m'', ''pip'', ''install'', ''-U'', spec] @ space_split extra)
              Inherit]
         \<and> (\<forall>t \<in> set (space_split extra). t \<noteq> [] \<and> CHR '' '' \<notin> set t)
         \<and> concat (space_split extra) = filter (\<lambda>c. c \<noteq> CHR '' '') extra
         \<and> ((\<forall>c \<in> set extra. is_whitespace c \<longrightarrow> c = CHR '' '')
              \<longrightarrow> space_split extra = whitespace_split extra)"
proof -
  have ia: "install_args env = [''-m'', ''pip'', ''install'', ''-U'', spec] @ space_split extra"
    by (simp add: install_args_def pip_spec_eq extraArgs_space_split assms(3,4))
  from ensureInstalled_install_trace[OF assms(1,2), of env]
  obtain res w rest where "ensureInstalled h env python s =
           (res, \<lparr>world = w,
                  trace = trace s @ [SpawnSync python probe_args Ignore,
                                     SpawnSync python (install_args env) Inherit] @ rest\<rparr>)"
    by blast
  then have a: "take 2 (drop (length (trace s)) (trace (snd (ensureInstalled h env python s)))) =
           [SpawnSync python [''-c'', ''import notebook_mcp''] Ignore,
            SpawnSync python ([''-m'', ''pip'', ''install'', ''-U'', spec] @ space_split extra)
              Inherit]"
    by (simp add: ia probe_args_def)
  have b: "\<forall>t \<in> set (space_split extra). t \<noteq> [] \<and> CHR '' '' \<notin> set t"
  proof
    fix t assume t: "t \<in> set (space_split extra)"
    then have "t \<noteq> []" unfolding space_split_def by (rule tokens_nonempty)
    moreover have "\<forall>x \<in> set t. \<not> x = CHR '' ''"
      using _ t[unfolded space_split_def] by (rule tokens_no_sep) simp
    ultimately show "t \<noteq> [] \<and> CHR '' '' \<notin> set t" by blast
  qed
  have c: "concat (space_split extra) = filter (\<lambda>c. c \<noteq> CHR '' '') extra"
    by (simp add: space_split_def tokens_concat)
  have d: "(\<forall>c \<in> set extra. is_whitespace c \<longrightarrow> c = CHR '' '')
              \<longrightarrow> space_split extra = whitespace_split extra"
    using space_split_whitespace by blast
  from a b c d show ?thesis by blast
qed

theorem install_command_line_witness:
  "status (exited 1) \<noteq> Some 0
   \<and> take 2 (drop (length (trace s0)) (trace (snd (ensureInstalled
         (scripted_host which_python3 [exited 1, exited 0, exited 0] (OnExit (Some 0) None))
         [''NOTEBOOK_MCP_PIP_SPEC'' \<mapsto> ''notebook-mcp==1.2'',
          ''NOTEBOOK_MCP_PIP_ARGS'' \<mapsto> '' -q  --pre '']
         ''/usr/bin/python3'' s0)))) =
       [SpawnSync ''/usr/bin/python3'' [''-c'', ''import notebook_mcp''] Ignore,
        SpawnSync ''/usr/bin/python3''
          [''-m'', ''pip'', ''install'', ''-U'', ''notebook-mcp==1.2'', ''-q'', ''--pre'']
          Inherit]
   \<and> space_split '' -q  --pre '' = whitespace_split '' -q  --pre ''"
proof -
  let ?h = "scripted_host which_python3 [exited 1, exited 0, exited 0] (OnExit (Some 0) None)"
  let ?env = "[''NOTEBOOK_MCP_PIP_SPEC'' \<mapsto> ''notebook-mcp==1.2'',
               ''NOTEBOOK_MCP_PIP_ARGS'' \<mapsto> '' -q  --pre '']"
  have n1: "status (exited 1) \<noteq> Some 0" by (simp add: exited_def)
  have p1: "spawnSync ?h (world s0) ''/usr/bin/python3'' probe_args Ignore = (exited 1, 1)"
    by (simp add: scripted_spawnSync s0_def)
  have sp: "''notebook-mcp==1.2'' = (case ?env ''NOTEBOOK_MCP_PIP_SPEC'' of
                   None \<Rightarrow> ''notebook-mcp''
                 | Some v \<Rightarrow> if v = [] then ''notebook-mcp'' else v)"
    by simp
  have ex: "'' -q  --pre '' = (case ?env ''NOTEBOOK_MCP_PIP_ARGS'' of None \<Rightarrow> [] | Some v \<Rightarrow> v)"
    by simp
  have ss: "space_split '' -q  --pre '' = [''-q'', ''--pre'']"
    by (simp add: space_split_def)
  have nw: "\<forall>c \<in> set '' -q  --pre ''. is_whitespace c \<longrightarrow> c = CHR '' ''"
    by (simp add: is_whitespace_def)
  note w = install_command_line[OF p1 n1 sp ex]
  from w[THEN conjunct1] have a: "take 2 (drop (length (trace s0)) (trace (snd (ensureInstalled ?h ?env
         ''/usr/bin/python3'' s0)))) =
       [SpawnSync ''/usr/bin/python3'' [''-c'', ''import notebook_mcp''] Ignore,
        SpawnSync ''/usr/bin/python3''
          [''-m'', ''pip'', ''install'', ''-U'', ''notebook-mcp==1.2'', ''-q'', ''--pre'']
          Inherit]"
    by (simp only: ss append.simps)
  from w nw have b: "space_split '' -q  --pre '' = whitespace_split '' -q  --pre ''"
    by blast
  from n1 a b show ?thesis by blast
qed

text \<open>
  Claim C4. If the first probe fails and the install command exits with a status
  \<open>n \<noteq> 0\<close>, the launch stops there: the install is the last call to the host (no
  second probe, no backend), and the launcher exits with status 1. When \<^verbatim>\<open>spawnSync\<close>
  reports no error of its own, the error carries the command line and \<open>n\<close>, and the
  diagnostic written is that text, \<^verbatim>\<open>... exited with code n\<close>.
\<close>

theorem install_failure_is_fatal:
  assumes "findPython h env s = (Some python, s1)"
    and "spawnSync h (world s1) python probe_args Ignore = (r1, w1)"
    and "status r1 \<noteq> Some 0"
    and "spawnSync h w1 python (install_args env) Inherit = (r2, w2)"
    and "status r2 = Some n"
    and "n \<noteq> 0"
  shows "snd (notebook_mcp h env process_argv s) =
           \<lparr>world = w2,
            trace = trace s1 @ [SpawnSync python probe_args Ignore,
                                SpawnSync python (install_args env) Inherit]\<rparr>
         \<and> exit_status (fst (notebook_mcp h env process_argv s)) = 1
         \<and> (error r2 = None \<longrightarrow>
              fst (ensureInstalled h env python s1) =
                Inl ((new_Error (stack_frames h 25)
                        (python @ '' '' @ join '' '' (install_args env)
                           @ '' exited with code '' @ number_toString n))
                      \<lparr>exitCode := Some n\<rparr>)
              \<and> stderr (fst (notebook_mcp h env process_argv s)) =
                  ''Error: '' @ python @ '' '' @ join '' '' (install_args env)
                    @ '' exited with code '' @ number_toString n
                    @ stack_frames h 25 @ [CHR 0x0A])"
proof -
  let ?s2 = "\<lparr>world = w2,
            trace = trace s1 @ [SpawnSync python probe_args Ignore,
                                SpawnSync python (install_args env) Inherit]\<rparr>"
  let ?msg = "python @ '' '' @ join '' '' (install_args env)
                @ '' exited with code '' @ number_toString n"
  from assms(5,6) have bad: "error r2 \<noteq> None \<or> (\<exists>n. status r2 = Some n \<and> n \<noteq> 0)"
    by simp
  from ensureInstalled_install_failed[OF assms(2,3,4) bad]
  obtain e where e: "ensureInstalled h env python s1 = (Inl e, ?s2)" by blast
  note n = notebook_mcp_rejected[OF launch_install_error[OF assms(1) e], of process_argv]
  have c1: "snd (notebook_mcp h env process_argv s) = ?s2"
    and c2: "exit_status (fst (notebook_mcp h env process_argv s)) = 1"
    by (simp_all add: n)
  have c3: "fst (ensureInstalled h env python s1) =
              Inl ((new_Error (stack_frames h 25) ?msg)\<lparr>exitCode := Some n\<rparr>)
            \<and> stderr (fst (notebook_mcp h env process_argv s)) =
                ''Error: '' @ ?msg @ stack_frames h 25 @ [CHR 0x0A]"
    if ne: "error r2 = None"
  proof -
    have "spawnSync h (world \<lparr>world = w1, trace = trace s1 @ [SpawnSync python probe_args Ignore]\<rparr>)
            python (install_args env) Inherit = (r2, w2)"
      using assms(4) by simp
    from runChecked_eq[OF this]
    have "fst (ensureInstalled h env python s1) =
            Inl ((new_Error (stack_frames h 25) ?msg)\<lparr>exitCode := Some n\<rparr>)"
      by (simp add: ensureInstalled_install[OF assms(2,3)] ne assms(5,6))
    with e have ee: "e = (new_Error (stack_frames h 25) ?msg)\<lparr>exitCode := Some n\<rparr>"
      by simp
    have "diagnostic ((new_Error (stack_frames h 25) ?msg)\<lparr>exitCode := Some n\<rparr>) =
        ''Error: '' @ ?msg @ stack_frames h 25"
      by (rule diagnostic_new_Error_exitCode) simp
    with ee have de: "diagnostic e = ''Error: '' @ ?msg @ stack_frames h 25"
      by simp
    have "fst (ensureInstalled h env python s1) = Inl e"
      by (simp add: e)
    with ee de show ?thesis
      by (simp add: n)
  qed
  from c1 c2 c3 show ?thesis by simp
qed

theorem install_failure_is_fatal_witness:
  "status (exited 3) = Some 3 \<and> (3::int) \<noteq> 0
   \<and> error (exited 3) = None
   \<and> notebook_mcp (scripted_host which_python3 [exited 1, exited 3] (OnExit (Some 0) None))
         Map.empty [''node'', ''notebook-mcp''] s0 =
       (\<lparr>stderr = ''Error: /usr/bin/python3 -m pip install -U notebook-mcp exited with code 3''
                     @ [CHR 0x0A] @ ''    at launcher.js'' @ [CHR 0x0A],
          exit_status = 1\<rparr>,
        \<lparr>world = 2,
         trace = [Which ''python'', Which ''python3'',
                  SpawnSync ''/usr/bin/python3'' [''-c'', ''import notebook_mcp''] Ignore,
                  SpawnSync ''/usr/bin/python3''
                    [''-m'', ''pip'', ''install'', ''-U'', ''notebook-mcp''] Inherit]\<rparr>)
   \<and> sublist ''exited with code 3''
        (stderr (fst (notebook_mcp
           (scripted_host which_python3 [exited 1, exited 3] (OnExit (Some 0) None))
           Map.empty [''node'', ''notebook-mcp''] s0)))"
proof -
  let ?h = "scripted_host which_python3 [exited 1, exited 3] (OnExit (Some 0) None)"
  let ?s1 = "\<lparr>world = 0, trace = [Which ''python'', Which ''python3'']\<rparr> :: nat state"
  let ?argv = "[''node'', ''notebook-mcp'']"
  have f: "findPython ?h Map.empty s0 = (Some ''/usr/bin/python3'', ?s1)"
    by (rule findPython_python3)
  have p1: "spawnSync ?h (world ?s1) ''/usr/bin/python3'' probe_args Ignore = (exited 1, 1)"
    by (simp add: scripted_spawnSync)
  have n1: "status (exited 1) \<noteq> Some 0" by (simp add: exited_def)
  have i: "spawnSync ?h 1 ''/usr/bin/python3'' (install_args Map.empty) Inherit = (exited 3, 2)"
    by (simp add: scripted_spawnSync)
  have s3: "status (exited 3) = Some 3" and e3: "error (exited 3) = None"
    by (simp_all add: exited_def)
  have z: "(3::int) \<noteq> 0" by simp
  have three: "number_toString 3 = ''3''"
    by (simp add: number_toString_def decimal.simps[of 3] digit_char_def)
  note w = install_failure_is_fatal[OF f p1 n1 i s3 z, of ?argv]
  from w e3 have st: "stderr (fst (notebook_mcp ?h Map.empty ?argv s0)) =
      ''Error: /usr/bin/python3 -m pip install -U notebook-mcp exited with code 3''
        @ [CHR 0x0A] @ ''    at launcher.js'' @ [CHR 0x0A]"
    by (simp add: scripted_stack_frames install_args_default three)
  from w have ex: "exit_status (fst (notebook_mcp ?h Map.empty ?argv s0)) = 1"
    and sn: "snd (notebook_mcp ?h Map.empty ?argv s0) =
        \<lparr>world = 2,
         trace = [Which ''python'', Which ''python3'',
                  SpawnSync ''/usr/bin/python3'' [''-c'', ''import notebook_mcp''] Ignore,
                  SpawnSync ''/usr/bin/python3''
                    [''-m'', ''pip'', ''install'', ''-U'', ''notebook-mcp''] Inherit]\<rparr>"
    by (simp_all add: install_args_default probe_args_def)
  have all: "notebook_mcp ?h Map.empty ?argv s0 =
       (\<lparr>stderr = ''Error: /usr/bin/python3 -m pip install -U notebook-mcp exited with code 3''
                     @ [CHR 0x0A] @ ''    at launcher.js'' @ [CHR 0x0A],
          exit_status = 1\<rparr>,
        \<lparr>world = 2,
         trace = [Which ''python'', Which ''python3'',
                  SpawnSync ''/usr/bin/python3'' [''-c'', ''import notebook_mcp''] Ignore,
                  SpawnSync ''/usr/bin/python3''
                    [''-m'', ''pip'', ''install'', ''-U'', ''notebook-mcp''] Inherit]\<rparr>)"
    using st ex sn by (cases "notebook_mcp ?h Map.empty ?argv s0") (simp del: append.simps)
  have sb: "sublist ''exited with code 3''
        (stderr (fst (notebook_mcp ?h Map.empty ?argv s0)))"
    unfolding st by (simp add: sublist_Cons_right)
  from s3 z e3 all sb show ?thesis by blast
qed

text \<open>
  Claim C5. If the backend is ended by a signal, the launcher writes a diagnostic that
  names the signal and exits with status 1, whatever the signal and the code are.
\<close>

theorem signal_termination_fails:
  assumes "findPython h env s = (Some python, s1)"
    and "ensureInstalled h env python s1 = (Inr (), s2)"
    and "spawn h (world s2) python ([''-m'', ''notebook_mcp.server''] @ drop 2 process_argv)
           Inherit = (OnExit code (Some sig), w)"
    and "sig \<noteq> []"
  shows "notebook_mcp h env process_argv s =
           (\<lparr>stderr = ''Error: notebook-mcp exited due to signal '' @ sig
                        @ stack_frames h 74 @ [CHR 0x0A],
             exit_status = 1\<rparr>,
            \<lparr>world = w,
             trace = trace s2 @ [Spawn python
                       ([''-m'', ''notebook_mcp.server''] @ drop 2 process_argv) Inherit]\<rparr>)
         \<and> sublist sig (stderr (fst (notebook_mcp h env process_argv s)))"
proof -
  have l: "launch h env (drop 2 process_argv) s =
           (Rejected ((new_Error (stack_frames h 74) (''notebook-mcp exited due to signal '' @ sig))
                       \<lparr>exitCode := Some 1\<rparr>),
            \<lparr>world = w,
             trace = trace s2 @ [Spawn python
                       ([''-m'', ''notebook_mcp.server''] @ drop 2 process_argv) Inherit]\<rparr>)"
    by (simp add: launch_found[OF assms(1)] assms(2) supervise_eq[OF assms(3)]
        on_exit_signal[OF assms(4)])
  have n: "notebook_mcp h env process_argv s =
           (\<lparr>stderr = ''Error: notebook-mcp exited due to signal '' @ sig
                        @ stack_frames h 74 @ [CHR 0x0A],
             exit_status = 1\<rparr>,
            \<lparr>world = w,
             trace = trace s2 @ [Spawn python
                       ([''-m'', ''notebook_mcp.server''] @ drop 2 process_argv) Inherit]\<rparr>)"
    unfolding notebook_mcp_rejected[OF l] by (simp add: diagnostic_new_Error_exitCode)
  have "sublist sig (''Error: notebook-mcp exited due to signal '' @ sig
                        @ (stack_frames h 74 @ [CHR 0x0A]))"
    by (rule sublist_appendI)
  with n show ?thesis by simp
qed

theorem signal_termination_fails_witness:
  "findPython (scripted_host which_python3 [exited 0] (OnExit None (Some ''SIGTERM'')))
       Map.empty s0 =
     (Some ''/usr/bin/python3'', \<lparr>world = 0, trace = [Which ''python'', Which ''python3'']\<rparr>)
   \<and> ''SIGTERM'' \<noteq> []
   \<and> notebook_mcp (scripted_host which_python3 [exited 0] (OnExit None (Some ''SIGTERM'')))
         Map.empty [''node'', ''notebook-mcp'', ''--foo''] s0 =
       (\<lparr>stderr = ''Error: notebook-mcp exited due to signal SIGTERM''
                     @ [CHR 0x0A] @ ''    at launcher.js'' @ [CHR 0x0A],
          exit_status = 1\<rparr>,
        \<lparr>world = 1,
         trace = [Which ''python'', Which ''python3'',
                  SpawnSync ''/usr/bin/python3'' [''-c'', ''import notebook_mcp''] Ignore,
                  Spawn ''/usr/bin/python3'' [''-m'', ''notebook_mcp.server'', ''--foo'']
                    Inherit]\<rparr>)"
proof -
  let ?h = "scripted_host which_python3 [exited 0] (OnExit None (Some ''SIGTERM''))"
  let ?s1 = "\<lparr>world = 0, trace = [Which ''python'', Which ''python3'']\<rparr> :: nat state"
  let ?s2 = "\<lparr>world = 1, trace = [Which ''python'', Which ''python3'',
               SpawnSync ''/usr/bin/python3'' probe_args Ignore]\<rparr> :: nat state"
  have f: "findPython ?h Map.empty s0 = (Some ''/usr/bin/python3'', ?s1)"
    by (simp add: findPython_def candidates_def scripted_host_def which_python3_def
        truthy_def record_event_def s0_def)
  have p: "spawnSync ?h (world ?s1) ''/usr/bin/python3'' probe_args Ignore = (exited 0, 1)"
    by (simp add: scripted_host_def)
  have e: "ensureInstalled ?h Map.empty ''/usr/bin/python3'' ?s1 = (Inr (), ?s2)"
    using ensureInstalled_importable[OF p, of Map.empty] by (simp add: exited_def)
  have b: "spawn ?h (world ?s2) ''/usr/bin/python3''
             ([''-m'', ''notebook_mcp.server''] @ drop 2 [''node'', ''notebook-mcp'', ''--foo''])
             Inherit = (OnExit None (Some ''SIGTERM''), 1)"
    by (simp add: scripted_host_def)
  have g: "''SIGTERM'' \<noteq> []" by simp
  have fr: "stack_frames ?h 74 = [CHR 0x0A] @ ''    at launcher.js''"
    by (simp add: scripted_host_def)
  from signal_termination_fails[OF f e b g, THEN conjunct1] f g show ?thesis
    by (simp add: fr probe_args_def)
qed

text \<open>
  Claim C6. If the override is unset (or empty), \<^verbatim>\<open>findPython\<close> returns the path of the
  first candidate of \<^verbatim>\<open>python\<close>, \<^verbatim>\<open>python3\<close>, \<^verbatim>\<open>py\<close> that resolves, having probed
  exactly the candidates up to and including that one; a probe that throws or gives no
  path only moves on to the next candidate, and when none resolves the result is null
  after all three probes. If exactly one candidate resolves, its path is returned. The
  result is a function of the host and the environment.
\<close>

theorem findPython_first_resolvable:
  assumes "\<not> truthy_opt (env ''NOTEBOOK_MCP_PYTHON'')"
  shows "findPython h env s =
           (case find (resolves h) [''python'', ''python3'', ''py''] of
              None \<Rightarrow>
                (None, s\<lparr>trace := trace s @ [Which ''python'', Which ''python3'', Which ''py'']\<rparr>)
            | Some c \<Rightarrow>
                (Some (resolved_path h c),
                 s\<lparr>trace := trace s @
                     map Which (takeWhile (\<lambda>c. \<not> resolves h c) [''python'', ''python3'', ''py'']
                                @ [c])\<rparr>))
         \<and> (\<forall>c \<in> set [''python'', ''python3'', ''py''].
               resolves h c \<and>
               (\<forall>c' \<in> set [''python'', ''python3'', ''py'']. c' \<noteq> c \<longrightarrow> \<not> resolves h c')
               \<longrightarrow> fst (findPython h env s) = Some (resolved_path h c))"
proof -
  have eq: "findPython h env s = probe_candidates h [''python'', ''python3'', ''py''] s"
    using assms by (simp add: findPython_def candidates_def)
  have first: "findPython h env s =
           (case find (resolves h) [''python'', ''python3'', ''py''] of
              None \<Rightarrow>
                (None, s\<lparr>trace := trace s @ [Which ''python'', Which ''python3'', Which ''py'']\<rparr>)
            | Some c \<Rightarrow>
                (Some (resolved_path h c),
                 s\<lparr>trace := trace s @
                     map Which (takeWhile (\<lambda>c. \<not> resolves h c) [''python'', ''python3'', ''py'']
                                @ [c])\<rparr>))"
    unfolding eq probe_candidates_find by (simp split: option.splits)
  have one: "fst (findPython h env s) = Some (resolved_path h c)"
    if "c \<in> set [''python'', ''python3'', ''py'']" "resolves h c"
      "\<forall>c' \<in> set [''python'', ''python3'', ''py'']. c' \<noteq> c \<longrightarrow> \<not> resolves h c'" for c
  proof -
    from that have "find (resolves h) [''python'', ''python3'', ''py''] = Some c"
      by auto 
    then show ?thesis unfolding first by simp
  qed
  from first one show ?thesis by blast
qed

theorem findPython_first_resolvable_witness:
  "\<not> truthy_opt (Map.empty ''NOTEBOOK_MCP_PYTHON'')
   \<and> findPython (scripted_host which_all [] (OnExit (Some 0) None)) Map.empty s0 =
       (Some ''/usr/bin/python'', \<lparr>world = 0, trace = [Which ''python'']\<rparr>)
   \<and> findPython (scripted_host which_python3 [] (OnExit (Some 0) None)) Map.empty s0 =
       (Some ''/usr/bin/python3'', \<lparr>world = 0, trace = [Which ''python'', Which ''python3'']\<rparr>)
   \<and> \<not> resolves (scripted_host which_python3 [] (OnExit (Some 0) None)) ''python''
   \<and> resolves (scripted_host which_python3 [] (OnExit (Some 0) None)) ''python3''
   \<and> \<not> resolves (scripted_host which_python3 [] (OnExit (Some 0) None)) ''py''
   \<and> fst (findPython (scripted_host which_python3 [] (OnExit (Some 0) None)) Map.empty s0) =
       Some (resolved_path (scripted_host which_python3 [] (OnExit (Some 0) None)) ''python3'')"
proof -
  have a: "\<not> truthy_opt ((Map.empty :: env) ''NOTEBOOK_MCP_PYTHON'')" by simp
  have r1: "resolves (scripted_host which_all [] (OnExit (Some 0) None)) c" for c
    by (simp add: resolves_def scripted_host_def which_all_def truthy_def)
  have r2: "resolves (scripted_host which_python3 [] (OnExit (Some 0) None)) c
              \<longleftrightarrow> c = ''python3''" for c
    by (simp add: resolves_def scripted_host_def which_python3_def truthy_def)
  have p1: "resolved_path (scripted_host which_all [] (OnExit (Some 0) None)) ''python''
              = ''/usr/bin/python''"
    by (simp add: resolved_path_def scripted_host_def which_all_def)
  have p2: "resolved_path (scripted_host which_python3 [] (OnExit (Some 0) None)) ''python3''
              = ''/usr/bin/python3''"
    by (simp add: resolved_path_def scripted_host_def which_python3_def)
  from findPython_first_resolvable[OF a, THEN conjunct1, of "scripted_host which_all [] (OnExit (Some 0) None)" s0]
  have w1: "findPython (scripted_host which_all [] (OnExit (Some 0) None)) Map.empty s0 =
       (Some ''/usr/bin/python'', \<lparr>world = 0, trace = [Which ''python'']\<rparr>)"
    by (simp add: r1 p1 s0_def)
  from findPython_first_resolvable[OF a, THEN conjunct1, of "scripted_host which_python3 [] (OnExit (Some 0) None)" s0]
  have w2: "findPython (scripted_host which_python3 [] (OnExit (Some 0) None)) Map.empty s0 =
       (Some ''/usr/bin/python3'', \<lparr>world = 0, trace = [Which ''python'', Which ''python3'']\<rparr>)"
    by (simp add: r2 p2 s0_def)
  have only: "resolves (scripted_host which_python3 [] (OnExit (Some 0) None)) ''python3'' \<and>
      (\<forall>c' \<in> set [''python'', ''python3'', ''py'']. c' \<noteq> ''python3'' \<longrightarrow>
         \<not> resolves (scripted_host which_python3 [] (OnExit (Some 0) None)) c')"
    by (simp add: r2)
  have mem: "''python3'' \<in> set [''python'', ''python3'', ''py'']" by simp
  from findPython_first_resolvable[OF a, THEN conjunct2, THEN bspec, OF mem, THEN mp, OF only,
      of s0]
  have w3: "fst (findPython (scripted_host which_python3 [] (OnExit (Some 0) None)) Map.empty s0) =
       Some (resolved_path (scripted_host which_python3 [] (OnExit (Some 0) None)) ''python3'')" .
  have r3: "\<not> resolves (scripted_host which_python3 [] (OnExit (Some 0) None)) ''python''"
    "resolves (scripted_host which_python3 [] (OnExit (Some 0) None)) ''python3''"
    "\<not> resolves (scripted_host which_python3 [] (OnExit (Some 0) None)) ''py''"
    by (simp_all add: r2)
  from a w1 w2 w3 r3 show ?thesis by blast
qed

text \<open>
  Claim C7. If the first import probe exits with status 0, \<^verbatim>\<open>ensureInstalled\<close> returns
  without error and the probe is the only call it makes to the host: no install command
  is spawned.
\<close>

theorem probe_success_no_install:
  assumes "spawnSync h (world s) python probe_args Ignore = (r, w)"
    and "status r = Some 0"
  shows "ensureInstalled h env python s =
           (Inr (), \<lparr>world = w, trace = trace s @ [SpawnSync python probe_args Ignore]\<rparr>)"
  using assms by (rule ensureInstalled_importable)

theorem probe_success_no_install_witness:
  "spawnSync (scripted_host which_python3 [exited 0] (OnExit (Some 0) None)) (world s0)
       ''/usr/bin/python3'' probe_args Ignore = (exited 0, 1)
   \<and> status (exited 0) = Some 0
   \<and> ensureInstalled (scripted_host which_python3 [exited 0] (OnExit (Some 0) None)) Map.empty
         ''/usr/bin/python3'' s0 =
       (Inr (), \<lparr>world = 1,
                 trace = [SpawnSync ''/usr/bin/python3'' [''-c'', ''import notebook_mcp''] Ignore]\<rparr>)"
proof -
  let ?h = "scripted_host which_python3 [exited 0] (OnExit (Some 0) None)"
  have a: "spawnSync ?h (world s0) ''/usr/bin/python3'' probe_args Ignore = (exited 0, 1)"
    by (simp add: scripted_host_def s0_def)
  have b: "status (exited 0) = Some 0"
    by (simp add: exited_def)
  from probe_success_no_install[OF a b, of Map.empty] a b show ?thesis
    by (simp add: s0_def probe_args_def)
qed

text \<open>
  Claim C8. If the override is unset (or empty) and no candidate resolves,
  \<^verbatim>\<open>findPython\<close> returns null after probing the three candidates, and the launcher
  exits with status 1 after writing a diagnostic that names Python 3.11+ and tells the
  operator to set \<^verbatim>\<open>NOTEBOOK_MCP_PYTHON\<close>; no child process is spawned.
\<close>

theorem no_interpreter_is_fatal:
  assumes "\<not> truthy_opt (env ''NOTEBOOK_MCP_PYTHON'')"
    and "\<forall>c \<in> set [''python'', ''python3'', ''py'']. \<not> resolves h c"
  shows "findPython h env s =
           (None, s\<lparr>trace := trace s @ [Which ''python'', Which ''python3'', Which ''py'']\<rparr>)
         \<and> notebook_mcp h env process_argv s =
             (\<lparr>stderr = ''Error: '' @ not_found_message @ stack_frames h 56 @ [CHR 0x0A],
               exit_status = 1\<rparr>,
              s\<lparr>trace := trace s @ [Which ''python'', Which ''python3'', Which ''py'']\<rparr>)
         \<and> sublist ''Install Python 3.11+'' not_found_message
         \<and> sublist ''or set NOTEBOOK_MCP_PYTHON to the full path of your python executable''
               not_found_message"
proof -
  have eq: "findPython h env s' = probe_candidates h [''python'', ''python3'', ''py''] s'" for s'
    using assms(1) by (simp add: findPython_def candidates_def)
  from assms(2) have nf: "find (resolves h) [''python'', ''python3'', ''py''] = None"
    by simp
  have f: "findPython h env s' =
           (None, s'\<lparr>trace := trace s' @ [Which ''python'', Which ''python3'', Which ''py'']\<rparr>)"
    for s'
    unfolding eq probe_candidates_find nf by simp
  have l: "launch h env argv s =
           (Rejected (new_Error (stack_frames h 56) not_found_message),
            s\<lparr>trace := trace s @ [Which ''python'', Which ''python3'', Which ''py'']\<rparr>)" for argv
    by (simp add: launch_def f)
  have n: "notebook_mcp h env process_argv s =
             (\<lparr>stderr = ''Error: '' @ not_found_message @ stack_frames h 56 @ [CHR 0x0A],
               exit_status = 1\<rparr>,
              s\<lparr>trace := trace s @ [Which ''python'', Which ''python3'', Which ''py'']\<rparr>)"
    unfolding notebook_mcp_rejected[OF l]
    by (simp add: diagnostic_new_Error[OF not_found_message_nonempty])
  have m1: "sublist ''Install Python 3.11+'' not_found_message"
    by (simp add: not_found_message_def sublist_Cons_right)
  have m2: "sublist ''or set NOTEBOOK_MCP_PYTHON to the full path of your python executable''
               not_found_message"
    by (simp add: not_found_message_def sublist_Cons_right)
  from f n m1 m2 show ?thesis by blast
qed

theorem no_interpreter_is_fatal_witness:
  "\<not> truthy_opt (Map.empty ''NOTEBOOK_MCP_PYTHON'')
   \<and> \<not> resolves (scripted_host which_none [] (OnExit (Some 0) None)) ''python''
   \<and> \<not> resolves (scripted_host which_none [] (OnExit (Some 0) None)) ''python3''
   \<and> \<not> resolves (scripted_host which_none [] (OnExit (Some 0) None)) ''py''
   \<and> findPython (scripted_host which_none [] (OnExit (Some 0) None)) Map.empty s0 =
       (None, \<lparr>world = 0, trace = [Which ''python'', Which ''python3'', Which ''py'']\<rparr>)
   \<and> exit_status (fst (notebook_mcp (scripted_host which_none [] (OnExit (Some 0) None))
         Map.empty [''node'', ''notebook-mcp''] s0)) = 1
   \<and> sublist ''set NOTEBOOK_MCP_PYTHON''
        (stderr (fst (notebook_mcp (scripted_host which_none [] (OnExit (Some 0) None))
           Map.empty [''node'', ''notebook-mcp''] s0)))"
proof -
  let ?h = "scripted_host which_none [] (OnExit (Some 0) None)"
  have a: "\<not> truthy_opt ((Map.empty :: env) ''NOTEBOOK_MCP_PYTHON'')" by simp
  have b: "\<forall>c \<in> set [''python'', ''python3'', ''py'']. \<not> resolves ?h c"
    by (simp add: resolves_def scripted_host_def which_none_def)
  note w = no_interpreter_is_fatal[OF a b, of s0 "[''node'', ''notebook-mcp'']"]
  from w have f: "findPython ?h Map.empty s0 =
       (None, \<lparr>world = 0, trace = [Which ''python'', Which ''python3'', Which ''py'']\<rparr>)"
    by (simp add: s0_def)
  from w have st: "stderr (fst (notebook_mcp ?h Map.empty [''node'', ''notebook-mcp''] s0)) =
      ''Error: '' @ not_found_message @ stack_frames ?h 56 @ [CHR 0x0A]"
    and ex: "exit_status (fst (notebook_mcp ?h Map.empty [''node'', ''notebook-mcp''] s0)) = 1"
    by simp_all
  have "sublist ''set NOTEBOOK_MCP_PYTHON''
          (''Error: '' @ not_found_message @ stack_frames ?h 56 @ [CHR 0x0A])"
    by (simp add: not_found_message_def sublist_Cons_right)
  with st have sb: "sublist ''set NOTEBOOK_MCP_PYTHON''
        (stderr (fst (notebook_mcp ?h Map.empty [''node'', ''notebook-mcp''] s0)))"
    by simp
  from b have b': "\<not> resolves ?h ''python''" "\<not> resolves ?h ''python3''"
    "\<not> resolves ?h ''py''"
    by simp_all
  from a b' f ex sb show ?thesis by blast
qed

text \<open>
  Claim C9. If the first probe fails, the install command exits with status 0 and the
  second probe fails too, \<^verbatim>\<open>ensureInstalled\<close> raises the error saying that notebook-mcp
  was installed but is still not importable and pointing at \<^verbatim>\<open>NOTEBOOK_MCP_PYTHON\<close>;
  the launcher writes it and exits with status 1, and the second probe is the last call
  to the host: the backend is not spawned.
\<close>

theorem reprobe_failure_is_fatal:
  assumes "findPython h env s = (Some python, s1)"
    and "spawnSync h (world s1) python probe_args Ignore = (r1, w1)"
    and "status r1 \<noteq> Some 0"
    and "spawnSync h w1 python (install_args env) Inherit = (r2, w2)"
    and "error r2 = None"
    and "status r2 = Some 0"
    and "spawnSync h w2 python probe_args Ignore = (r3, w3)"
    and "status r3 \<noteq> Some 0"
  shows "ensureInstalled h env python s1 =
           (Inl (new_Error (stack_frames h 46) not_importable_message),
            \<lparr>world = w3,
             trace = trace s1 @ [SpawnSync python probe_args Ignore,
                                 SpawnSync python (install_args env) Inherit,
                                 SpawnSync python probe_args Ignore]\<rparr>)
         \<and> notebook_mcp h env process_argv s =
             (\<lparr>stderr = ''Error: '' @ not_importable_message @ stack_frames h 46 @ [CHR 0x0A],
               exit_status = 1\<rparr>,
              \<lparr>world = w3,
               trace = trace s1 @ [SpawnSync python probe_args Ignore,
                                   SpawnSync python (install_args env) Inherit,
                                   SpawnSync python probe_args Ignore]\<rparr>)
         \<and> sublist ''Installed notebook-mcp but it is still not importable''
               not_importable_message
         \<and> sublist ''Check that your Python environment is the one you expect (NOTEBOOK_MCP_PYTHON)''
               not_importable_message"
proof -
  from assms(6) have ok: "status r2 = None \<or> status r2 = Some 0" by simp
  have e: "ensureInstalled h env python s1 =
           (Inl (new_Error (stack_frames h 46) not_importable_message),
            \<lparr>world = w3,
             trace = trace s1 @ [SpawnSync python probe_args Ignore,
                                 SpawnSync python (install_args env) Inherit,
                                 SpawnSync python probe_args Ignore]\<rparr>)"
    unfolding ensureInstalled_reprobe[OF assms(2,3,4,5) ok assms(7)] using assms(8) by simp
  note l = launch_install_error[OF assms(1) e]
  have n: "notebook_mcp h env process_argv s =
             (\<lparr>stderr = ''Error: '' @ not_importable_message @ stack_frames h 46 @ [CHR 0x0A],
               exit_status = 1\<rparr>,
              \<lparr>world = w3,
               trace = trace s1 @ [SpawnSync python probe_args Ignore,
                                   SpawnSync python (install_args env) Inherit,
                                   SpawnSync python probe_args Ignore]\<rparr>)"
    unfolding notebook_mcp_rejected[OF l]
    by (simp add: diagnostic_new_Error[OF not_importable_message_nonempty])
  have m1: "sublist ''Installed notebook-mcp but it is still not importable''
               not_importable_message"
    by (simp add: not_importable_message_def)
  have m2: "sublist ''Check that your Python environment is the one you expect (NOTEBOOK_MCP_PYTHON)''
               not_importable_message"
    by (simp add: not_importable_message_def sublist_Cons_right)
  from e n m1 m2 show ?thesis by blast
qed

theorem reprobe_failure_is_fatal_witness:
  "findPython (scripted_host which_python3 [exited 1, exited 0, exited 1] (OnExit (Some 0) None))
       Map.empty s0 =
     (Some ''/usr/bin/python3'', \<lparr>world = 0, trace = [Which ''python'', Which ''python3'']\<rparr>)
   \<and> notebook_mcp
         (scripted_host which_python3 [exited 1, exited 0, exited 1] (OnExit (Some 0) None))
         Map.empty [''node'', ''notebook-mcp''] s0 =
       (\<lparr>stderr = ''Error: '' @ not_importable_message @ [CHR 0x0A] @ ''    at launcher.js''
                     @ [CHR 0x0A],
          exit_status = 1\<rparr>,
        \<lparr>world = 3,
         trace = [Which ''python'', Which ''python3'',
                  SpawnSync ''/usr/bin/python3'' [''-c'', ''import notebook_mcp''] Ignore,
                  SpawnSync ''/usr/bin/python3''
                    [''-m'', ''pip'', ''install'', ''-U'', ''notebook-mcp''] Inherit,
                  SpawnSync ''/usr/bin/python3'' [''-c'', ''import notebook_mcp''] Ignore]\<rparr>)"
proof -
  let ?h = "scripted_host which_python3 [exited 1, exited 0, exited 1] (OnExit (Some 0) None)"
  let ?s1 = "\<lparr>world = 0, trace = [Which ''python'', Which ''python3'']\<rparr> :: nat state"
  have f: "findPython ?h Map.empty s0 = (Some ''/usr/bin/python3'', ?s1)"
    by (rule findPython_python3)
  have p1: "spawnSync ?h (world ?s1) ''/usr/bin/python3'' probe_args Ignore = (exited 1, 1)"
    by (simp add: scripted_spawnSync)
  have n1: "status (exited 1) \<noteq> Some 0" by (simp add: exited_def)
  have i: "spawnSync ?h 1 ''/usr/bin/python3'' (install_args Map.empty) Inherit = (exited 0, 2)"
    by (simp add: scripted_spawnSync)
  have e0: "error (exited 0) = None" and s0': "status (exited 0) = Some 0"
    by (simp_all add: exited_def)
  have p2: "spawnSync ?h 2 ''/usr/bin/python3'' probe_args Ignore = (exited 1, 3)"
    by (simp add: scripted_spawnSync)
  from reprobe_failure_is_fatal[OF f p1 n1 i e0 s0' p2 n1, THEN conjunct2, THEN conjunct1,
      of "[''node'', ''notebook-mcp'']"] f
  show ?thesis
    by (simp add: scripted_stack_frames install_args_default probe_args_def)
qed

text \<open>
  Claim C10. If the install command ends with no error and no numeric status (as when a
  signal kills it), \<^verbatim>\<open>runChecked\<close> returns normally and \<^verbatim>\<open>ensureInstalled\<close> goes on
  to the second probe: it succeeds if that probe exits with 0 and otherwise raises the
  still-not-importable error.
\<close>

theorem install_without_status_goes_on_to_reprobe:
  assumes "spawnSync h (world s) python probe_args Ignore = (r1, w1)"
    and "status r1 \<noteq> Some 0"
    and "spawnSync h w1 python (install_args env) Inherit = (r2, w2)"
    and "error r2 = None"
    and "status r2 = None"
    and "spawnSync h w2 python probe_args Ignore = (r3, w3)"
  shows "runChecked h python (install_args env)
             \<lparr>world = w1, trace = trace s @ [SpawnSync python probe_args Ignore]\<rparr> =
           (Inr (), \<lparr>world = w2,
                     trace = trace s @ [SpawnSync python probe_args Ignore,
                                        SpawnSync python (install_args env) Inherit]\<rparr>)
         \<and> ensureInstalled h env python s =
             (if status r3 = Some 0 then Inr ()
              else Inl (new_Error (stack_frames h 46) not_importable_message),
              \<lparr>world = w3,
               trace = trace s @ [SpawnSync python probe_args Ignore,
                                  SpawnSync python (install_args env) Inherit,
                                  SpawnSync python probe_args Ignore]\<rparr>)"
proof -
  have "spawnSync h (world \<lparr>world = w1, trace = trace s @ [SpawnSync python probe_args Ignore]\<rparr>)
          python (install_args env) Inherit = (r2, w2)"
    using assms(3) by simp
  from runChecked_eq[OF this]
  have r: "runChecked h python (install_args env)
             \<lparr>world = w1, trace = trace s @ [SpawnSync python probe_args Ignore]\<rparr> =
           (Inr (), \<lparr>world = w2,
                     trace = trace s @ [SpawnSync python probe_args Ignore,
                                        SpawnSync python (install_args env) Inherit]\<rparr>)"
    by (simp add: assms(4,5))
  from assms(5) have ok: "status r2 = None \<or> status r2 = Some 0" by simp
  from r ensureInstalled_reprobe[OF assms(1,2,3,4) ok assms(6)] show ?thesis by simp
qed

theorem install_without_status_goes_on_to_reprobe_witness:
  "error killed = None \<and> status killed = None
   \<and> ensureInstalled (scripted_host which_python3 [exited 1, killed, exited 1] (OnExit (Some 0) None))
         Map.empty ''/usr/bin/python3'' s0 =
       (Inl (new_Error ([CHR 0x0A] @ ''    at launcher.js'') not_importable_message),
        \<lparr>world = 3,
         trace = [SpawnSync ''/usr/bin/python3'' [''-c'', ''import notebook_mcp''] Ignore,
                  SpawnSync ''/usr/bin/python3''
                    [''-m'', ''pip'', ''install'', ''-U'', ''notebook-mcp''] Inherit,
                  SpawnSync ''/usr/bin/python3'' [''-c'', ''import notebook_mcp''] Ignore]\<rparr>)
   \<and> ensureInstalled (scripted_host which_python3 [exited 1, killed, exited 0] (OnExit (Some 0) None))
         Map.empty ''/usr/bin/python3'' s0 =
       (Inr (),
        \<lparr>world = 3,
         trace = [SpawnSync ''/usr/bin/python3'' [''-c'', ''import notebook_mcp''] Ignore,
                  SpawnSync ''/usr/bin/python3''
                    [''-m'', ''pip'', ''install'', ''-U'', ''notebook-mcp''] Inherit,
                  SpawnSync ''/usr/bin/python3'' [''-c'', ''import notebook_mcp''] Ignore]\<rparr>)"
proof -
  let ?h = "scripted_host which_python3 [exited 1, killed, exited 1] (OnExit (Some 0) None)"
  let ?h' = "scripted_host which_python3 [exited 1, killed, exited 0] (OnExit (Some 0) None)"
  have k: "error killed = None" "status killed = None" by (simp_all add: killed_def)
  have n1: "status (exited 1) \<noteq> Some 0" by (simp add: exited_def)
  have p1: "spawnSync ?h (world s0) ''/usr/bin/python3'' probe_args Ignore = (exited 1, 1)"
    by (simp add: scripted_spawnSync s0_def)
  have i: "spawnSync ?h 1 ''/usr/bin/python3'' (install_args Map.empty) Inherit = (killed, 2)"
    by (simp add: scripted_spawnSync)
  have p2: "spawnSync ?h 2 ''/usr/bin/python3'' probe_args Ignore = (exited 1, 3)"
    by (simp add: scripted_spawnSync)
  have p1': "spawnSync ?h' (world s0) ''/usr/bin/python3'' probe_args Ignore = (exited 1, 1)"
    by (simp add: scripted_spawnSync s0_def)
  have i': "spawnSync ?h' 1 ''/usr/bin/python3'' (install_args Map.empty) Inherit = (killed, 2)"
    by (simp add: scripted_spawnSync)
  have p2': "spawnSync ?h' 2 ''/usr/bin/python3'' probe_args Ignore = (exited 0, 3)"
    by (simp add: scripted_spawnSync)
  from install_without_status_goes_on_to_reprobe[OF p1 n1 i k p2, THEN conjunct2]
  have a: "ensureInstalled ?h Map.empty ''/usr/bin/python3'' s0 =
       (Inl (new_Error ([CHR 0x0A] @ ''    at launcher.js'') not_importable_message),
        \<lparr>world = 3,
         trace = [SpawnSync ''/usr/bin/python3'' [''-c'', ''import notebook_mcp''] Ignore,
                  SpawnSync ''/usr/bin/python3''
                    [''-m'', ''pip'', ''install'', ''-U'', ''notebook-mcp''] Inherit,
                  SpawnSync ''/usr/bin/python3'' [''-c'', ''import notebook_mcp''] Ignore]\<rparr>)"
    by (simp add: scripted_stack_frames install_args_default probe_args_def s0_def exited_def)
  from install_without_status_goes_on_to_reprobe[OF p1' n1 i' k p2', THEN conjunct2]
  have b: "ensureInstalled ?h' Map.empty ''/usr/bin/python3'' s0 =
       (Inr (),
        \<lparr>world = 3,
         trace = [SpawnSync ''/usr/bin/python3'' [''-c'', ''import notebook_mcp''] Ignore,
                  SpawnSync ''/usr/bin/python3''
                    [''-m'', ''pip'', ''install'', ''-U'', ''notebook-mcp''] Inherit,
                  SpawnSync ''/usr/bin/python3'' [''-c'', ''import notebook_mcp''] Ignore]\<rparr>)"
    by (simp add: scripted_stack_frames install_args_default probe_args_def s0_def exited_def)
  from k a b show ?thesis by blast
qed

end
